theory Spec2Isabelle
  imports Complex_Main "HOL-Library.Monad_Syntax"
begin

section \<open>Numbers and numpy primitives\<close>

text \<open>
  The program (\<^verbatim>\<open>models/mav_dynamics_control.py\<close>) computes with Python floats and
  numpy \<^verbatim>\<open>float64\<close> scalars. Finite values are modelled as exact reals. numpy
  arithmetic never raises: a division by zero or an \<^verbatim>\<open>arcsin\<close> outside \<open>[-1, 1]\<close>
  yields \<^verbatim>\<open>nan\<close> or \<^verbatim>\<open>inf\<close> (with a warning). Such a non-finite value is \<open>None\<close>;
  every later \<open>+\<close>, \<open>-\<close>, \<open>*\<close> on a non-finite operand stays non-finite, which is
  what \<open>bind\<close> on \<open>option\<close> does. Rounding, overflow and signed zeros are not
  modelled.
\<close>

type_synonym npfloat = "real option"

type_synonym vec3 = "real \<times> real \<times> real"

type_synonym mat3 = "vec3 \<times> vec3 \<times> vec3"

type_synonym vec6 = "real \<times> real \<times> real \<times> real \<times> real \<times> real"

type_synonym quat = "real \<times> real \<times> real \<times> real"

datatype py_error = TypeError | IndexError | ZeroDivisionError

text \<open>A Python number that is a \<^verbatim>\<open>float\<close> or, after a fractional power of a
  negative float, a \<^verbatim>\<open>complex\<close>.\<close>

datatype pynum = PyFloat real | PyComplex complex

text \<open>\<^verbatim>\<open>a / b\<close> where an operand is a numpy scalar.\<close>

definition np_div :: "real \<Rightarrow> real \<Rightarrow> npfloat" where
  "np_div a b = (if b = 0 then None else Some (a / b))"

text \<open>\<^verbatim>\<open>np.arcsin(x)\<close>: \<^verbatim>\<open>nan\<close> outside \<open>[-1, 1]\<close>.\<close>

definition np_arcsin :: "real \<Rightarrow> npfloat" where
  "np_arcsin x = (if \<bar>x\<bar> \<le> 1 then Some (arcsin x) else None)"

text \<open>\<^verbatim>\<open>np.arctan2(y, x)\<close> on finite arguments: the angle of the point \<open>(x, y)\<close> in
  \<open>(-pi, pi]\<close>, and \<open>0\<close> at the origin.\<close>

definition arctan2 :: "real \<Rightarrow> real \<Rightarrow> real" where
  "arctan2 y x =
     (if 0 < x then arctan (y / x)
      else if x < 0 then (if 0 \<le> y then arctan (y / x) + pi else arctan (y / x) - pi)
      else if 0 < y then pi / 2
      else if y < 0 then - (pi / 2)
      else 0)"

text \<open>\<^verbatim>\<open>np.sign\<close>, \<^verbatim>\<open>np.radians\<close> and \<^verbatim>\<open>np.deg2rad\<close>.\<close>

definition np_sign :: "real \<Rightarrow> real" where
  "np_sign x = (if x < 0 then - 1 else if x = 0 then 0 else 1)"

definition deg2rad :: "real \<Rightarrow> real" where
  "deg2rad d = d * pi / 180"

text \<open>\<^verbatim>\<open>np.random.normal(loc, scale)\<close> is \<open>loc + scale * z\<close> for a fresh standard
  normal variate \<open>z\<close>. The variate is an explicit argument: the model is a function
  of the values the generator hands out.\<close>

definition random_normal :: "real \<Rightarrow> real \<Rightarrow> real \<Rightarrow> real" where
  "random_normal loc scale z = loc + scale * z"

text \<open>Python's \<^verbatim>\<open>x ** y\<close> on two finite floats: \<open>1.0\<close> for a zero exponent, an
  exception for a negative power of zero, a real power for a positive base or an
  integral exponent, and a complex number \<open>|x| ** y * (cos (pi y) + i sin (pi y))\<close>
  for a fractional power of a negative base.\<close>

definition py_pow :: "real \<Rightarrow> real \<Rightarrow> py_error + pynum" where
  "py_pow x y =
     (if y = 0 then Inr (PyFloat 1)
      else if x = 0 then (if y < 0 then Inl ZeroDivisionError else Inr (PyFloat 0))
      else if 0 < x then Inr (PyFloat (x powr y))
      else if of_int \<lfloor>y\<rfloor> = y then Inr (PyFloat (x powi \<lfloor>y\<rfloor>))
      else Inr (PyComplex (of_real (\<bar>x\<bar> powr y) * cis (pi * y))))"

text \<open>\<^verbatim>\<open>k * v + n\<close> for a float \<open>k\<close>, a float noise \<open>n\<close> and a float or complex \<open>v\<close>.\<close>

fun scale_add :: "real \<Rightarrow> pynum \<Rightarrow> real \<Rightarrow> pynum" where
  "scale_add k (PyFloat r) n = PyFloat (k * r + n)"
| "scale_add k (PyComplex c) n = PyComplex (of_real k * c + of_real n)"

subsection \<open>Three-dimensional linear algebra\<close>

text \<open>A matrix is the triple of its rows.\<close>

fun transpose3 :: "mat3 \<Rightarrow> mat3" where
  "transpose3 ((a11, a12, a13), (a21, a22, a23), (a31, a32, a33)) =
     ((a11, a21, a31), (a12, a22, a32), (a13, a23, a33))"

fun dot3 :: "vec3 \<Rightarrow> vec3 \<Rightarrow> real" where
  "dot3 (a1, a2, a3) (b1, b2, b3) = a1 * b1 + a2 * b2 + a3 * b3"

fun mat_vec :: "mat3 \<Rightarrow> vec3 \<Rightarrow> vec3" where
  "mat_vec (r1, r2, r3) x = (dot3 r1 x, dot3 r2 x, dot3 r3 x)"

fun norm3 :: "vec3 \<Rightarrow> real" where
  "norm3 (a1, a2, a3) = sqrt (a1\<^sup>2 + a2\<^sup>2 + a3\<^sup>2)"

fun sub3 :: "vec3 \<Rightarrow> vec3 \<Rightarrow> vec3" where
  "sub3 (a1, a2, a3) (b1, b2, b3) = (a1 - b1, a2 - b2, a3 - b3)"

section \<open>Configuration and messages\<close>

text \<open>The parameter modules, the message classes, the rotation tools and the base
  class \<^verbatim>\<open>models.mav_dynamics.MavDynamics\<close> are imported by the program but are not part
  of it. Their constants and functions are parameters of the model.\<close>

record mav_params =
  MAV_u0 :: real
  MAV_mass :: real
  MAV_gravity :: real
  MAV_rho :: real
  MAV_M :: real
  MAV_alpha0 :: real
  MAV_e :: real
  MAV_AR :: real
  MAV_S_wing :: real
  MAV_S_prop :: real
  MAV_k_motor :: real
  MAV_b :: real
  MAV_c :: real
  MAV_C_L_0 :: real
  MAV_C_L_alpha :: real
  MAV_C_L_q :: real
  MAV_C_L_delta_e :: real
  MAV_C_D_p :: real
  MAV_C_D_q :: real
  MAV_C_D_delta_e :: real
  MAV_C_Y_0 :: real
  MAV_C_Y_beta :: real
  MAV_C_Y_p :: real
  MAV_C_Y_r :: real
  MAV_C_Y_delta_a :: real
  MAV_C_Y_delta_r :: real
  MAV_C_ell_0 :: real
  MAV_C_ell_beta :: real
  MAV_C_ell_p :: real
  MAV_C_ell_r :: real
  MAV_C_ell_delta_a :: real
  MAV_C_ell_delta_r :: real
  MAV_C_m_0 :: real
  MAV_C_m_alpha :: real
  MAV_C_m_q :: real
  MAV_C_m_delta_e :: real
  MAV_C_n_0 :: real
  MAV_C_n_beta :: real
  MAV_C_n_p :: real
  MAV_C_n_r :: real
  MAV_C_n_delta_a :: real
  MAV_C_n_delta_r :: real

record sensor_params =
  SENSOR_accel_sigma :: real
  SENSOR_mag_sigma :: real
  SENSOR_abs_pres_sigma :: real
  SENSOR_diff_pres_sigma :: real
  SENSOR_gps_k :: real
  SENSOR_ts_gps :: real
  SENSOR_gps_n_sigma :: real
  SENSOR_gps_e_sigma :: real
  SENSOR_gps_h_sigma :: real
  SENSOR_gps_Vg_sigma :: real
  SENSOR_gps_course_sigma :: real

text \<open>\<^verbatim>\<open>MsgDelta\<close>: the control inputs.\<close>

record msg_delta =
  elevator :: real
  aileron :: real
  rudder :: real
  throttle :: real

text \<open>\<^verbatim>\<open>MsgState\<close>: the true-state projection (\<^verbatim>\<open>self.true_state\<close>). The sideslip and
  the flight-path angle come out of numpy divisions and may be non-finite.\<close>

record msg_state =
  st_north :: real
  st_east :: real
  st_altitude :: real
  st_Va :: real
  st_alpha :: real
  st_beta :: npfloat
  st_phi :: real
  st_theta :: real
  st_psi :: real
  st_Vg :: real
  st_gamma :: npfloat
  st_chi :: real
  st_p :: real
  st_q :: real
  st_r :: real
  st_wn :: real
  st_we :: real
  st_bx :: real
  st_by :: real
  st_bz :: real
  st_camera_az :: real
  st_camera_el :: real

text \<open>\<^verbatim>\<open>MsgSensors\<close>: the sensor readings (\<^verbatim>\<open>self._sensors\<close>).\<close>

record msg_sensors =
  gyro_x :: real
  gyro_y :: real
  gyro_z :: real
  accel_x :: npfloat
  accel_y :: npfloat
  accel_z :: npfloat
  mag_x :: real
  mag_y :: real
  mag_z :: real
  abs_pressure :: pynum
  diff_pressure :: real
  gps_n :: real
  gps_e :: real
  gps_h :: real
  gps_Vg :: real
  gps_course :: real

text \<open>The 13-element state vector \<^verbatim>\<open>self._state\<close>, a \<open>13 \<times> 1\<close> array; the fields are
  its entries 0 to 12 in order: position (0-2), body velocity (3-5), attitude
  quaternion (6-9), body rates (10-12).\<close>

record state13 =
  s_north :: real
  s_east :: real
  s_down :: real
  s_u :: real
  s_v :: real
  s_w :: real
  s_e0 :: real
  s_e1 :: real
  s_e2 :: real
  s_e3 :: real
  s_p :: real
  s_q :: real
  s_r :: real

text \<open>The slices \<^verbatim>\<open>self._state[3:6]\<close> and \<^verbatim>\<open>self._state[6:10]\<close>.\<close>

definition state_3_6 :: "state13 \<Rightarrow> vec3" where
  "state_3_6 s = (s_u s, s_v s, s_w s)"

definition state_6_10 :: "state13 \<Rightarrow> quat" where
  "state_6_10 s = (s_e0 s, s_e1 s, s_e2 s, s_e3 s)"

text \<open>The force and moment vector \<^verbatim>\<open>np.array([[fx, fy, fz, l, m, n]]).T\<close>.\<close>

type_synonym forces6 = "npfloat \<times> npfloat \<times> npfloat \<times> npfloat \<times> npfloat \<times> npfloat"

text \<open>\<^verbatim>\<open>self.current_forces_moments\<close> holds either the flat Python list of integers
  the constructor stores or the column array the force model stores.\<close>

datatype cached_forces = FlatList "int list" | ColumnArray forces6

text \<open>What \<^verbatim>\<open>super().__init__(Ts)\<close> leaves in the object.\<close>

record base_object =
  base_state :: state13
  base_ts_simulation :: real
  base_true_state :: msg_state

text \<open>Everything the program imports. \<open>euler_to_rotation\<close> takes \<open>phi\<close>, \<open>theta\<close>,
  \<open>psi\<close> in this order; \<open>rk4_step\<close> maps the time step, the state vector and the
  forces to the next state vector, which it alone changes. State vectors are
  finite.\<close>

record env =
  MAV :: mav_params
  SENSOR :: sensor_params
  quaternion_to_euler :: "quat \<Rightarrow> vec3"
  quaternion_to_rotation :: "quat \<Rightarrow> mat3"
  euler_to_rotation :: "real \<Rightarrow> real \<Rightarrow> real \<Rightarrow> mat3"
  MsgDelta_new :: msg_delta
  MsgSensors_new :: msg_sensors
  super_init :: "real \<Rightarrow> base_object"
  rk4_step :: "real \<Rightarrow> state13 \<Rightarrow> forces6 \<Rightarrow> state13"

text \<open>The attributes of a \<^verbatim>\<open>MavDynamics\<close> object. \<^verbatim>\<open>_gps_eta_Vg\<close> and
  \<^verbatim>\<open>_gps_eta_course\<close> do not exist until the first GPS update (\<open>None\<close>).\<close>

record mav =
  self_state :: state13
  self_ts_simulation :: real
  true_state :: msg_state
  self_wind :: vec3
  self_forces :: vec3
  self_Va :: real
  self_alpha :: real
  self_beta :: npfloat
  self_sensors :: msg_sensors
  self_gps_eta_n :: real
  self_gps_eta_e :: real
  self_gps_eta_h :: real
  self_gps_eta_Vg :: "real option"
  self_gps_eta_course :: "real option"
  self_t_gps :: real
  current_forces_moments :: cached_forces

text \<open>The standard normal variates behind the calls of \<^verbatim>\<open>np.random.normal\<close> in one
  call of \<^verbatim>\<open>sensors()\<close>, one field for each call in the text, in its order.\<close>

record draws =
  z_gyro_x :: real
  z_gyro_y :: real
  z_gyro_z :: real
  z_accel_x :: real
  z_accel_y :: real
  z_accel_z :: real
  z_mag_x :: real
  z_mag_y :: real
  z_mag_z :: real
  z_abs_pressure :: real
  z_diff_pressure :: real
  z_gps_n :: real
  z_gps_e :: real
  z_gps_h :: real
  z_gps_Vg :: real
  z_gps_course :: real

section \<open>Propulsion\<close>

text \<open>\<^verbatim>\<open>_motor_thrust_torque(self, Va, delta_t)\<close>.\<close>

definition motor_thrust_torque :: "mav_params \<Rightarrow> real \<Rightarrow> real \<Rightarrow> real \<times> real" where
  "motor_thrust_torque P Va delta_t =
     (let thrust_prop = 0.5 * MAV_rho P * MAV_S_prop P * ((MAV_k_motor P * delta_t)\<^sup>2 - Va\<^sup>2);
          torque_prop = 0
      in (thrust_prop, torque_prop))"

section \<open>Velocity and wind resolution\<close>

text \<open>The slices \<^verbatim>\<open>wind[0:3]\<close> and \<^verbatim>\<open>wind[3:6]\<close> of the \<open>6 \<times> 1\<close> wind array.\<close>

fun wind_0_3 :: "vec6 \<Rightarrow> vec3" where
  "wind_0_3 (w0, w1, w2, w3, w4, w5) = (w0, w1, w2)"

fun wind_3_6 :: "vec6 \<Rightarrow> vec3" where
  "wind_3_6 (w0, w1, w2, w3, w4, w5) = (w3, w4, w5)"

text \<open>The default argument \<^verbatim>\<open>np.zeros((6,1))\<close>.\<close>

definition zeros6 :: vec6 where
  "zeros6 = (0, 0, 0, 0, 0, 0)"

text \<open>\<^verbatim>\<open>_update_velocity_data(self, wind)\<close>.\<close>

definition update_velocity_data :: "vec6 \<Rightarrow> mav \<Rightarrow> mav" where
  "update_velocity_data wind st =
     (let steady_state = wind_0_3 wind;
          gust = wind_3_6 wind;
          Vg_b = state_3_6 (self_state st);
          Va_b = sub3 Vg_b steady_state;
          (ur, vr, wr) = Va_b;
          Va = norm3 Va_b
      in st\<lparr>self_Va := Va,
            self_alpha := arctan2 wr ur,
            self_beta := do { x \<leftarrow> np_div vr Va; np_arcsin x }\<rparr>)"

section \<open>Aerodynamic forces and moments\<close>

text \<open>\<^verbatim>\<open>_forces_moments(self, delta)\<close>; returns the vector and the object, whose
  \<^verbatim>\<open>true_state.p/q/r\<close> and \<^verbatim>\<open>current_forces_moments\<close> it sets. The divisor of
  \<open>sigmoid\<close> is a product of two numbers above 1.\<close>

definition forces_moments :: "env \<Rightarrow> msg_delta \<Rightarrow> mav \<Rightarrow> forces6 \<times> mav" where
  "forces_moments E delta st =
     (let P = MAV E;
          (phi, theta, psi) = quaternion_to_euler E (state_6_10 (self_state st));
          ts = (true_state st)\<lparr>st_p := s_p (self_state st),
                               st_q := s_q (self_state st),
                               st_r := s_r (self_state st)\<rparr>;
          (fg_b0, fg_b1, fg_b2) =
             mat_vec (transpose3 (euler_to_rotation E phi theta psi))
                     (0, 0, MAV_mass P * MAV_gravity P);
          alpha = self_alpha st;
          Va = self_Va st;
          M_minus = exp (- MAV_M P * (alpha - MAV_alpha0 P));
          M_plus = exp (MAV_M P * (alpha + MAV_alpha0 P));
          sigmoid = (1 + M_minus + M_plus) / ((1 + M_minus) * (1 + M_plus));
          CL = (1 - sigmoid) * (MAV_C_L_0 P + MAV_C_L_alpha P * alpha)
               + sigmoid * (2 * np_sign alpha * (sin alpha)\<^sup>2 * cos alpha);
          CD = do { x \<leftarrow> np_div ((MAV_C_L_0 P + MAV_C_L_alpha P * alpha)\<^sup>2)
                                (pi * MAV_e P * MAV_AR P);
                    Some (MAV_C_D_p P + x) };
          q_bar = 0.5 * MAV_rho P * Va\<^sup>2;
          F_lift = q_bar * MAV_S_wing P * (CL + MAV_C_L_delta_e P * elevator delta);
          (thrust_prop, torque_prop) = motor_thrust_torque P Va (throttle delta);
          Cx = do { cd \<leftarrow> CD; Some (- cd * cos alpha + CL * sin alpha) };
          Cxq = - MAV_C_D_q P * cos alpha + MAV_C_L_q P * sin alpha;
          C_X_delta_e = - MAV_C_D_delta_e P * cos alpha + MAV_C_L_delta_e P * sin alpha;
          fx = do { cx \<leftarrow> Cx;
                    x \<leftarrow> np_div (MAV_c P) (2 * Va);
                    Some (fg_b0 + q_bar * MAV_S_wing P * (cx + Cxq * x * st_q ts)
                          + q_bar * MAV_S_wing P * (C_X_delta_e * elevator delta)
                          + thrust_prop) };
          Cz = do { cd \<leftarrow> CD; Some (- cd * sin alpha - CL * cos alpha) };
          Czq = - MAV_C_D_q P * sin alpha - MAV_C_L_q P * cos alpha;
          Cz_delta_e = - MAV_C_D_delta_e P * sin alpha - MAV_C_L_delta_e P * cos alpha;
          fz = do { cz \<leftarrow> Cz;
                    x \<leftarrow> np_div (st_q ts * MAV_c P) (2 * Va);
                    Some (fg_b2 + q_bar * MAV_S_wing P
                                  * (cz + Czq * x + Cz_delta_e * elevator delta)) };
          fy = do { beta \<leftarrow> self_beta st;
                    x \<leftarrow> np_div (MAV_C_Y_p P * st_p ts * MAV_b P) (2 * Va);
                    y \<leftarrow> np_div (MAV_C_Y_r P * MAV_b P * st_r ts) (2 * Va);
                    Some (fg_b1 + q_bar * MAV_S_wing P
                                  * (MAV_C_Y_0 P + MAV_C_Y_beta P * beta + x + y)
                          + q_bar * MAV_S_wing P
                            * (MAV_C_Y_delta_a P * aileron delta
                               + MAV_C_Y_delta_r P * rudder delta)) };
          l = do { beta \<leftarrow> self_beta st;
                   x \<leftarrow> np_div (st_p ts * MAV_b P) (2 * Va);
                   y \<leftarrow> np_div (MAV_C_ell_r P * st_r ts * MAV_b P) (2 * Va);
                   Some (q_bar * MAV_S_wing P * MAV_b P
                           * (MAV_C_ell_0 P + MAV_C_ell_beta P * beta
                              + MAV_C_ell_p P * x + y)
                         + q_bar * MAV_S_wing P * MAV_b P
                           * (MAV_C_ell_delta_a P * aileron delta
                              + MAV_C_ell_delta_r P * rudder delta)
                         + torque_prop) };
          m = do { x \<leftarrow> np_div (st_q ts * MAV_c P) (2 * Va);
                   Some (q_bar * MAV_S_wing P * MAV_c P
                           * (MAV_C_m_0 P + MAV_C_m_alpha P * alpha + MAV_C_m_q P * x)
                         + q_bar * MAV_S_wing P * MAV_c P
                           * (MAV_C_m_delta_e P * elevator delta)) };
          n = do { beta \<leftarrow> self_beta st;
                   x \<leftarrow> np_div (st_p ts * MAV_b P) (2 * Va);
                   y \<leftarrow> np_div (st_r ts * MAV_b P) (2 * Va);
                   Some (q_bar * MAV_S_wing P * MAV_b P
                           * ((MAV_C_n_0 P + MAV_C_n_beta P * beta)
                              + MAV_C_n_p P * x + MAV_C_n_r P * y)
                         + q_bar * MAV_S_wing P * MAV_b P
                           * (MAV_C_n_delta_a P * aileron delta
                              + MAV_C_n_delta_r P * rudder delta)) };
          forces_moments = (fx, fy, fz, l, m, n)
      in (forces_moments,
          st\<lparr>true_state := ts,
             current_forces_moments := ColumnArray forces_moments\<rparr>))"

section \<open>True-state projection\<close>

text \<open>\<^verbatim>\<open>_update_true_state(self)\<close>.\<close>

definition update_true_state :: "env \<Rightarrow> mav \<Rightarrow> mav" where
  "update_true_state E st =
     (let (phi, theta, psi) = quaternion_to_euler E (state_6_10 (self_state st));
          pdot = mat_vec (quaternion_to_rotation E (state_6_10 (self_state st)))
                         (state_3_6 (self_state st));
          (pdot0, pdot1, pdot2) = pdot;
          Vg = norm3 pdot
      in st\<lparr>true_state := (true_state st)\<lparr>
              st_north := s_north (self_state st),
              st_east := s_east (self_state st),
              st_altitude := - s_down (self_state st),
              st_Va := self_Va st,
              st_alpha := self_alpha st,
              st_beta := self_beta st,
              st_phi := phi,
              st_theta := theta,
              st_psi := psi,
              st_Vg := Vg,
              st_gamma := do { x \<leftarrow> np_div (- pdot2) Vg; np_arcsin x },
              st_chi := arctan2 pdot1 pdot0,
              st_p := s_p (self_state st),
              st_q := s_q (self_state st),
              st_r := s_r (self_state st),
              st_wn := fst (self_wind st),
              st_we := fst (snd (self_wind st)),
              st_bx := 0,
              st_by := 0,
              st_bz := 0,
              st_camera_az := 0,
              st_camera_el := 0\<rparr>\<rparr>)"

section \<open>Initialisation and the simulation step\<close>

text \<open>\<^verbatim>\<open>initialize_velocity(self, Va, alpha, beta)\<close>.\<close>

definition initialize_velocity :: "env \<Rightarrow> real \<Rightarrow> real \<Rightarrow> real \<Rightarrow> mav \<Rightarrow> mav" where
  "initialize_velocity E Va alpha beta st =
     (let st1 = st\<lparr>self_Va := Va, self_alpha := alpha, self_beta := Some beta\<rparr>;
          st2 = st1\<lparr>self_state := (self_state st1)\<lparr>
                   s_u := Va * cos alpha * cos beta,
                   s_v := Va * sin beta,
                   s_w := Va * sin alpha * cos beta\<rparr>\<rparr>;
          st3 = update_velocity_data zeros6 st2;
          (forces, st4) = forces_moments E (MsgDelta_new E) st3
      in update_true_state E st4)"

text \<open>\<^verbatim>\<open>__init__(self, Ts)\<close>. The attributes the constructor assigns after its call
  of \<^verbatim>\<open>initialize_velocity\<close> are not read by that call; the record starts with their
  final values, except for \<^verbatim>\<open>current_forces_moments\<close>, which the call sets and the
  last statement overwrites.\<close>

definition MavDynamics_init :: "env \<Rightarrow> real \<Rightarrow> mav" where
  "MavDynamics_init E Ts =
     (let b = super_init E Ts;
          st0 = \<lparr>self_state = base_state b,
                 self_ts_simulation = base_ts_simulation b,
                 true_state = base_true_state b,
                 self_wind = (0, 0, 0),
                 self_forces = (0, 0, 0),
                 self_Va = MAV_u0 (MAV E),
                 self_alpha = 0,
                 self_beta = Some 0,
                 self_sensors = MsgSensors_new E,
                 self_gps_eta_n = 0,
                 self_gps_eta_e = 0,
                 self_gps_eta_h = 0,
                 self_gps_eta_Vg = None,
                 self_gps_eta_course = None,
                 self_t_gps = 999,
                 current_forces_moments = FlatList [0, 0, 0, 0, 0, 0]\<rparr>;
          st1 = initialize_velocity E (MAV_u0 (MAV E)) 0 0 st0
      in st1\<lparr>current_forces_moments := FlatList [0, 0, 0, 0, 0, 0]\<rparr>)"

text \<open>\<^verbatim>\<open>update(self, delta, wind)\<close>. (The trim cost \<^verbatim>\<open>calculate_trim_output\<close> plays no
  part in the properties below and is left out.)\<close>

definition update :: "env \<Rightarrow> msg_delta \<Rightarrow> vec6 \<Rightarrow> mav \<Rightarrow> mav" where
  "update E delta wind st =
     (let (forces_moments, st1) = forces_moments E delta st;
          st2 = st1\<lparr>self_state :=
                      rk4_step E (self_ts_simulation st1) (self_state st1) forces_moments\<rparr>;
          st3 = update_velocity_data wind st2
      in update_true_state E st3)"

section \<open>Sensor synthesis\<close>

text \<open>\<^verbatim>\<open>sensors(self)\<close>, one definition for each commented block of the method.\<close>

text \<open>\<^verbatim>\<open># simulate rate gyros\<close>\<close>

definition sensors_gyros :: "draws \<Rightarrow> mav \<Rightarrow> mav" where
  "sensors_gyros d st =
     (let sensor_noise = deg2rad 0.5
      in st\<lparr>self_sensors := (self_sensors st)\<lparr>
              gyro_x := st_p (true_state st) + random_normal 0 sensor_noise (z_gyro_x d),
              gyro_y := st_q (true_state st) + random_normal 0 sensor_noise (z_gyro_y d),
              gyro_z := st_r (true_state st) + random_normal 0 sensor_noise (z_gyro_z d)\<rparr>\<rparr>)"

text \<open>\<^verbatim>\<open># simulate accelerometers\<close>. The first statement evaluates
  \<^verbatim>\<open>self.current_forces_moments[0][0]\<close> before anything is assigned: on a Python list
  the first index gives an integer (or fails on an empty list), and indexing an
  integer raises \<^verbatim>\<open>TypeError\<close>.\<close>

definition sensors_accels :: "env \<Rightarrow> draws \<Rightarrow> mav \<Rightarrow> py_error + mav" where
  "sensors_accels E d st =
     (case current_forces_moments st of
        FlatList xs \<Rightarrow> (if xs = [] then Inl IndexError else Inl TypeError)
      | ColumnArray (fx, fy, fz, l, m, n) \<Rightarrow>
          Inr (st\<lparr>self_sensors := (self_sensors st)\<lparr>
                accel_x := do { f \<leftarrow> fx; a \<leftarrow> np_div f (MAV_mass (MAV E));
                               Some (a + MAV_gravity (MAV E) * sin (st_theta (true_state st))
                                     + random_normal 0 (SENSOR_accel_sigma (SENSOR E))
                                         (z_accel_x d)) },
                accel_y := do { f \<leftarrow> fy; a \<leftarrow> np_div f (MAV_mass (MAV E));
                               Some (a - MAV_gravity (MAV E) * cos (st_theta (true_state st))
                                           * sin (st_phi (true_state st))
                                     + random_normal 0 (SENSOR_accel_sigma (SENSOR E))
                                         (z_accel_y d)) },
                accel_z := do { f \<leftarrow> fz; a \<leftarrow> np_div f (MAV_mass (MAV E));
                               Some (a - MAV_gravity (MAV E) * cos (st_theta (true_state st))
                                           * cos (st_phi (true_state st))
                                     + random_normal 0 (SENSOR_accel_sigma (SENSOR E))
                                         (z_accel_z d)) }\<rparr>\<rparr>))"

text \<open>\<^verbatim>\<open># simulate magnetometers\<close>. The products with \<^verbatim>\<open>np.matrix\<close> operands are matrix
  products; \<open>mi\<close> is the inertial field direction, \<open>mb\<close> the same in the body frame.
  Each reading is a \<open>1 \<times> 1\<close> matrix, modelled by its entry.\<close>

definition mag_inertial :: "env \<Rightarrow> vec3" where
  "mag_inertial E =
     (let inc = deg2rad 66;
          dec = deg2rad 2.13;
          rotMatrix = transpose3 (euler_to_rotation E 0 (- inc) dec)
      in mat_vec rotMatrix (1, 0, 0))"

definition mag_body :: "env \<Rightarrow> msg_state \<Rightarrow> vec3" where
  "mag_body E ts =
     mat_vec (transpose3 (euler_to_rotation E (st_phi ts) (st_theta ts) (st_psi ts)))
             (mag_inertial E)"

definition sensors_mag :: "env \<Rightarrow> draws \<Rightarrow> mav \<Rightarrow> mav" where
  "sensors_mag E d st =
     (let (mb0, mb1, mb2) = mag_body E (true_state st)
      in st\<lparr>self_sensors := (self_sensors st)\<lparr>
              mag_x := mb0 * random_normal 0 (SENSOR_mag_sigma (SENSOR E)) (z_mag_x d),
              mag_y := mb1 * random_normal 0 (SENSOR_mag_sigma (SENSOR E)) (z_mag_y d),
              mag_z := mb2 * random_normal 0 (SENSOR_mag_sigma (SENSOR E)) (z_mag_z d)\<rparr>\<rparr>)"

text \<open>\<^verbatim>\<open># simulate pressure sensors\<close>. The altitude comes from \<^verbatim>\<open>_state.item(2)\<close>, a
  Python float, so the power is Python's float power: it can raise, and it can
  return a complex number.\<close>

definition sensors_pressure :: "env \<Rightarrow> draws \<Rightarrow> mav \<Rightarrow> py_error + mav" where
  "sensors_pressure E d st =
     (case py_pow (1 - ((- 0.0065 * st_altitude (true_state st)) / 288.15))
                  ((MAV_gravity (MAV E) * 0.0289644) / (8.31432 * - 0.0065)) of
        Inl err \<Rightarrow> Inl err
      | Inr v \<Rightarrow>
          Inr (st\<lparr>self_sensors := (self_sensors st)\<lparr>
                abs_pressure :=
                  scale_add 101325 v
                    (random_normal 0 (SENSOR_abs_pres_sigma (SENSOR E)) (z_abs_pressure d)),
                diff_pressure :=
                  ((MAV_rho (MAV E) * (st_Va (true_state st))\<^sup>2) / 2)
                  + random_normal 0 (SENSOR_diff_pres_sigma (SENSOR E))
                      (z_diff_pressure d)\<rparr>\<rparr>))"

text \<open>\<^verbatim>\<open># simulate GPS sensor\<close>. Both branches end with
  \<^verbatim>\<open>self._t_gps += self._ts_simulation\<close>.\<close>

definition sensors_gps :: "env \<Rightarrow> draws \<Rightarrow> mav \<Rightarrow> mav" where
  "sensors_gps E d st =
     (let S = SENSOR E; ts = true_state st
      in if self_t_gps st \<ge> SENSOR_ts_gps S then
           (let eta_n = exp (- SENSOR_gps_k S * SENSOR_ts_gps S) * self_gps_eta_n st
                        + random_normal 0 (SENSOR_gps_n_sigma S) (z_gps_n d) * SENSOR_ts_gps S;
                eta_e = exp (- SENSOR_gps_k S * SENSOR_ts_gps S) * self_gps_eta_e st
                        + random_normal 0 (SENSOR_gps_e_sigma S) (z_gps_e d) * SENSOR_ts_gps S;
                eta_h = exp (- SENSOR_gps_k S * SENSOR_ts_gps S) * self_gps_eta_h st
                        + random_normal 0 (SENSOR_gps_h_sigma S) (z_gps_h d) * SENSOR_ts_gps S;
                eta_Vg = random_normal 0 (SENSOR_gps_Vg_sigma S) (z_gps_Vg d);
                eta_course = random_normal 0 (SENSOR_gps_course_sigma S) (z_gps_course d)
            in st\<lparr>self_gps_eta_n := eta_n,
                  self_gps_eta_e := eta_e,
                  self_gps_eta_h := eta_h,
                  self_gps_eta_Vg := Some eta_Vg,
                  self_gps_eta_course := Some eta_course,
                  self_sensors := (self_sensors st)\<lparr>
                    gps_n := st_north ts + eta_n,
                    gps_e := st_east ts + eta_e,
                    gps_h := st_altitude ts + eta_h,
                    gps_Vg := sqrt ((st_Va ts * cos (st_psi ts) + st_wn ts)\<^sup>2
                                    + (st_Va ts * sin (st_psi ts) + st_we ts)\<^sup>2) + eta_Vg,
                    gps_course := arctan2 (st_Va ts * sin (st_psi ts) + st_we ts)
                                          (st_Va ts * cos (st_psi ts) + st_wn ts)
                                  + eta_course\<rparr>,
                  self_t_gps := self_t_gps st + self_ts_simulation st\<rparr>)
         else st\<lparr>self_t_gps := self_t_gps st + self_ts_simulation st\<rparr>)"

text \<open>The whole method: the returned message (or the exception raised) and the
  object as the call leaves it. An exception keeps the assignments made before it.\<close>

definition sensors :: "env \<Rightarrow> draws \<Rightarrow> mav \<Rightarrow> (py_error + msg_sensors) \<times> mav" where
  "sensors E d st =
     (let st1 = sensors_gyros d st
      in case sensors_accels E d st1 of
           Inl err \<Rightarrow> (Inl err, st1)
         | Inr st2 \<Rightarrow>
             (let st3 = sensors_mag E d st2
              in case sensors_pressure E d st3 of
                   Inl err \<Rightarrow> (Inl err, st3)
                 | Inr st4 \<Rightarrow>
                     (let st5 = sensors_gps E d st4
                      in (Inr (self_sensors st5), st5))))"

section \<open>A concrete configuration\<close>

text \<open>Sample values for the imported parameters and tools, of the order of a small
  fixed-wing aircraft, and an aircraft in level flight at 25 m/s and 100 m. They
  serve to evaluate the definitions above at concrete inputs.\<close>

definition demo_MAV :: mav_params where
  "demo_MAV =
     \<lparr>MAV_u0 = 25, MAV_mass = 11, MAV_gravity = 9.81, MAV_rho = 1.2682,
      MAV_M = 50, MAV_alpha0 = 0.47, MAV_e = 0.9, MAV_AR = 15.29,
      MAV_S_wing = 0.55, MAV_S_prop = 0.2027, MAV_k_motor = 80,
      MAV_b = 2.9, MAV_c = 0.19,
      MAV_C_L_0 = 0.23, MAV_C_L_alpha = 5.61, MAV_C_L_q = 7.95, MAV_C_L_delta_e = 0.13,
      MAV_C_D_p = 0.043, MAV_C_D_q = 0, MAV_C_D_delta_e = 0.0135,
      MAV_C_Y_0 = 0, MAV_C_Y_beta = - 0.98, MAV_C_Y_p = 0, MAV_C_Y_r = 0,
      MAV_C_Y_delta_a = 0.075, MAV_C_Y_delta_r = 0.19,
      MAV_C_ell_0 = 0, MAV_C_ell_beta = - 0.13, MAV_C_ell_p = - 0.51, MAV_C_ell_r = 0.25,
      MAV_C_ell_delta_a = 0.17, MAV_C_ell_delta_r = 0.0024,
      MAV_C_m_0 = 0.0135, MAV_C_m_alpha = - 2.74, MAV_C_m_q = - 38.21,
      MAV_C_m_delta_e = - 0.99,
      MAV_C_n_0 = 0, MAV_C_n_beta = 0.073, MAV_C_n_p = - 0.069, MAV_C_n_r = - 0.095,
      MAV_C_n_delta_a = - 0.011, MAV_C_n_delta_r = - 0.069\<rparr>"

definition demo_SENSOR :: sensor_params where
  "demo_SENSOR =
     \<lparr>SENSOR_accel_sigma = 0.02, SENSOR_mag_sigma = 0.01,
      SENSOR_abs_pres_sigma = 10, SENSOR_diff_pres_sigma = 2,
      SENSOR_gps_k = 1 / 1100, SENSOR_ts_gps = 1,
      SENSOR_gps_n_sigma = 0.21, SENSOR_gps_e_sigma = 0.21, SENSOR_gps_h_sigma = 0.4,
      SENSOR_gps_Vg_sigma = 0.05, SENSOR_gps_course_sigma = 0.002\<rparr>"

text \<open>Rotation tools in the usual yaw-pitch-roll convention.\<close>

definition demo_euler_to_rotation :: "real \<Rightarrow> real \<Rightarrow> real \<Rightarrow> mat3" where
  "demo_euler_to_rotation phi theta psi =
     ((cos theta * cos psi,
       sin phi * sin theta * cos psi - cos phi * sin psi,
       cos phi * sin theta * cos psi + sin phi * sin psi),
      (cos theta * sin psi,
       sin phi * sin theta * sin psi + cos phi * cos psi,
       cos phi * sin theta * sin psi - sin phi * cos psi),
      (- sin theta, sin phi * cos theta, cos phi * cos theta))"

fun demo_quaternion_to_rotation :: "quat \<Rightarrow> mat3" where
  "demo_quaternion_to_rotation (e0, e1, e2, e3) =
     ((e1\<^sup>2 + e0\<^sup>2 - e2\<^sup>2 - e3\<^sup>2, 2 * (e1 * e2 - e3 * e0), 2 * (e1 * e3 + e2 * e0)),
      (2 * (e1 * e2 + e3 * e0), e2\<^sup>2 + e0\<^sup>2 - e1\<^sup>2 - e3\<^sup>2, 2 * (e2 * e3 - e1 * e0)),
      (2 * (e1 * e3 - e2 * e0), 2 * (e2 * e3 + e1 * e0), e3\<^sup>2 + e0\<^sup>2 - e1\<^sup>2 - e2\<^sup>2))"

fun demo_quaternion_to_euler :: "quat \<Rightarrow> vec3" where
  "demo_quaternion_to_euler (e0, e1, e2, e3) =
     (arctan2 (2 * (e0 * e1 + e2 * e3)) (e0\<^sup>2 + e3\<^sup>2 - e1\<^sup>2 - e2\<^sup>2),
      arcsin (2 * (e0 * e2 - e1 * e3)),
      arctan2 (2 * (e0 * e3 + e1 * e2)) (e0\<^sup>2 + e1\<^sup>2 - e2\<^sup>2 - e3\<^sup>2))"

definition demo_delta :: msg_delta where
  "demo_delta = \<lparr>elevator = 0, aileron = 0, rudder = 0, throttle = 0.5\<rparr>"

definition demo_sensors :: msg_sensors where
  "demo_sensors =
     \<lparr>gyro_x = 0, gyro_y = 0, gyro_z = 0,
      accel_x = Some 0, accel_y = Some 0, accel_z = Some 0,
      mag_x = 0, mag_y = 0, mag_z = 0,
      abs_pressure = PyFloat 0, diff_pressure = 0,
      gps_n = 0, gps_e = 0, gps_h = 0, gps_Vg = 0, gps_course = 0\<rparr>"

definition demo_state13 :: state13 where
  "demo_state13 =
     \<lparr>s_north = 0, s_east = 0, s_down = - 100,
      s_u = 25, s_v = 0, s_w = 0,
      s_e0 = 1, s_e1 = 0, s_e2 = 0, s_e3 = 0,
      s_p = 0, s_q = 0, s_r = 0\<rparr>"

definition demo_true_state :: msg_state where
  "demo_true_state =
     \<lparr>st_north = 0, st_east = 0, st_altitude = 100,
      st_Va = 25, st_alpha = 0, st_beta = Some 0,
      st_phi = 0, st_theta = 0, st_psi = 0,
      st_Vg = 25, st_gamma = Some 0, st_chi = 0,
      st_p = 0, st_q = 0, st_r = 0,
      st_wn = 0, st_we = 0, st_bx = 0, st_by = 0, st_bz = 0,
      st_camera_az = 0, st_camera_el = 0\<rparr>"

definition demo_env :: env where
  "demo_env =
     \<lparr>MAV = demo_MAV,
      SENSOR = demo_SENSOR,
      quaternion_to_euler = demo_quaternion_to_euler,
      quaternion_to_rotation = demo_quaternion_to_rotation,
      euler_to_rotation = demo_euler_to_rotation,
      MsgDelta_new = demo_delta,
      MsgSensors_new = demo_sensors,
      super_init = (\<lambda>Ts. \<lparr>base_state = demo_state13, base_ts_simulation = Ts,
                           base_true_state = demo_true_state\<rparr>),
      rk4_step = (\<lambda>Ts s fm. s)\<rparr>"

text \<open>The object in level flight after a simulation step of 0.01 s: the force
  model has stored a column array, and the GPS timer still holds the constructor's
  999.\<close>

definition demo_mav :: mav where
  "demo_mav =
     \<lparr>self_state = demo_state13,
      self_ts_simulation = 0.01,
      true_state = demo_true_state,
      self_wind = (0, 0, 0),
      self_forces = (0, 0, 0),
      self_Va = 25,
      self_alpha = 0,
      self_beta = Some 0,
      self_sensors = demo_sensors,
      self_gps_eta_n = 0,
      self_gps_eta_e = 0,
      self_gps_eta_h = 0,
      self_gps_eta_Vg = None,
      self_gps_eta_course = None,
      self_t_gps = 999,
      current_forces_moments = ColumnArray (Some 0, Some 0, Some 0, Some 0, Some 0, Some 0)\<rparr>"

text \<open>The draws of one call, all equal to \<open>z\<close>.\<close>

definition all_draws :: "real \<Rightarrow> draws" where
  "all_draws z =
     \<lparr>z_gyro_x = z, z_gyro_y = z, z_gyro_z = z,
      z_accel_x = z, z_accel_y = z, z_accel_z = z,
      z_mag_x = z, z_mag_y = z, z_mag_z = z,
      z_abs_pressure = z, z_diff_pressure = z,
      z_gps_n = z, z_gps_e = z, z_gps_h = z, z_gps_Vg = z, z_gps_course = z\<rparr>"

section \<open>Auxiliary notions for the properties\<close>

text \<open>\<open>sensor_frame st st'\<close>: the objects \<open>st\<close> and \<open>st'\<close> differ at most in the
  sensor message, the five GPS noise attributes and the GPS timer.\<close>

definition sensor_frame :: "mav \<Rightarrow> mav \<Rightarrow> bool" where
  "sensor_frame st st' =
     (st' = st\<lparr>self_sensors := self_sensors st',
               self_gps_eta_n := self_gps_eta_n st',
               self_gps_eta_e := self_gps_eta_e st',
               self_gps_eta_h := self_gps_eta_h st',
               self_gps_eta_Vg := self_gps_eta_Vg st',
               self_gps_eta_course := self_gps_eta_course st',
               self_t_gps := self_t_gps st'\<rparr>)"

text \<open>The object on entry to the GPS block of \<open>sensors\<close>, in a call that raises no
  exception.\<close>

definition pre_gps :: "env \<Rightarrow> draws \<Rightarrow> mav \<Rightarrow> mav" where
  "pre_gps E d st =
     projr (sensors_pressure E d
              (sensors_mag E d (projr (sensors_accels E d (sensors_gyros d st)))))"

section \<open>Propulsion: thrust and torque\<close>

text \<open>C5: for every airspeed \<open>Va\<close> and throttle command \<open>delta_t\<close>, the propulsion model
  returns the thrust \<open>1/2 * rho * S_prop * ((k_motor * delta_t)\<^sup>2 - Va\<^sup>2)\<close> and the
  propeller torque zero.\<close>

theorem motor_thrust_torque_formula:
  "motor_thrust_torque P Va delta_t =
     (1 / 2 * MAV_rho P * MAV_S_prop P * ((MAV_k_motor P * delta_t)\<^sup>2 - Va\<^sup>2), 0)"
  by (simp add: motor_thrust_torque_def)

text \<open>C6: at zero throttle the thrust is \<open>- 1/2 * rho * S_prop * Va\<^sup>2\<close>; with a
  positive air density and propeller area it is strictly negative for every
  \<open>Va > 0\<close> and nonpositive for every \<open>Va \<ge> 0\<close>.\<close>

theorem zero_throttle_thrust:
  "fst (motor_thrust_torque P Va 0) = - (1 / 2 * MAV_rho P * MAV_S_prop P * Va\<^sup>2) \<and>
   (0 < MAV_rho P \<and> 0 < MAV_S_prop P \<longrightarrow>
      (0 < Va \<longrightarrow> fst (motor_thrust_torque P Va 0) < 0) \<and>
      (0 \<le> Va \<longrightarrow> fst (motor_thrust_torque P Va 0) \<le> 0))"
  by (auto simp add: motor_thrust_torque_def mult_nonneg_nonpos mult_pos_neg)

theorem zero_throttle_thrust_witness:
  "0 < MAV_rho demo_MAV \<and> 0 < MAV_S_prop demo_MAV \<and> (0::real) < 25 \<and>
   fst (motor_thrust_torque demo_MAV 25 0) < 0 \<and> fst (motor_thrust_torque demo_MAV 25 0) \<le> 0"
  using zero_throttle_thrust [of demo_MAV 25] by (simp add: demo_MAV_def)

section \<open>Velocity and wind resolution: airspeed, angle of attack, sideslip\<close>

lemma abs_le_norm3: "\<bar>b\<bar> \<le> norm3 (a, b, c)"
proof -
  have "b\<^sup>2 \<le> a\<^sup>2 + b\<^sup>2 + c\<^sup>2" by simp
  then have "sqrt (b\<^sup>2) \<le> sqrt (a\<^sup>2 + b\<^sup>2 + c\<^sup>2)" by (rule real_sqrt_le_mono)
  then show ?thesis by simp
qed

lemma sideslip_defined:
  assumes "norm3 (a, b, c) \<noteq> 0"
  shows "do { x \<leftarrow> np_div b (norm3 (a, b, c)); np_arcsin x } = Some (arcsin (b / norm3 (a, b, c)))"
proof -
  have pos: "0 < norm3 (a, b, c)" using assms by (simp add: less_le)
  define k where "k = norm3 (a, b, c)"
  have "\<bar>b\<bar> \<le> k" "0 < k"
    using abs_le_norm3 [of b a c] pos by (simp_all only: k_def)
  then have "\<bar>b / k\<bar> \<le> 1" by (simp add: abs_if field_simps split: if_splits)
  moreover have "k \<noteq> 0" using \<open>0 < k\<close> by simp
  ultimately show ?thesis
    unfolding k_def [symmetric] by (simp only: np_div_def np_arcsin_def if_False if_True bind.bind_lunit)
qed

text \<open>C3: for every body velocity and every 6-component wind, the resolution takes
  the relative wind \<open>(ur, vr, wr)\<close> as body velocity minus the steady wind (the gust
  components \<open>g0, g1, g2\<close> do not occur in the result), the airspeed as its Euclidean
  norm, the angle of attack as \<open>arctan2 wr ur\<close> and the sideslip as
  \<open>arcsin (vr / Va)\<close>; at zero airspeed that quotient is numpy's \<open>0 / 0\<close>, not a
  number.\<close>

theorem update_velocity_data_resolution:
  "update_velocity_data (w0, w1, w2, g0, g1, g2) st =
     (let ur = s_u (self_state st) - w0;
          vr = s_v (self_state st) - w1;
          wr = s_w (self_state st) - w2;
          Va = sqrt (ur\<^sup>2 + vr\<^sup>2 + wr\<^sup>2)
      in st\<lparr>self_Va := Va,
            self_alpha := arctan2 wr ur,
            self_beta := (if Va = 0 then None else Some (arcsin (vr / Va)))\<rparr>)"
proof (cases "norm3 (s_u (self_state st) - w0, s_v (self_state st) - w1, s_w (self_state st) - w2) = 0")
  case True
  then show ?thesis
    by (simp add: update_velocity_data_def state_3_6_def Let_def np_div_def)
next
  case False
  from sideslip_defined [OF False] False show ?thesis
    by (simp add: update_velocity_data_def state_3_6_def Let_def)
qed

subsection \<open>Initialising from airspeed, angle of attack and sideslip\<close>




lemma forces_moments_frame:
  "snd (forces_moments E delta st) =
     st\<lparr>true_state := (true_state st)\<lparr>st_p := s_p (self_state st),
                                       st_q := s_q (self_state st),
                                       st_r := s_r (self_state st)\<rparr>,
        current_forces_moments := ColumnArray (fst (forces_moments E delta st))\<rparr>"
  by (simp add: forces_moments_def Let_def split: prod.splits)

lemma update_true_state_frame:
  "update_true_state E st = st\<lparr>true_state := true_state (update_true_state E st)\<rparr>"
  by (simp add: update_true_state_def Let_def split: prod.splits)



lemma initialize_velocity_unfold:
  "initialize_velocity E Va alpha beta st =
     update_true_state E (snd (forces_moments E (MsgDelta_new E)
       (update_velocity_data zeros6
          (st\<lparr>self_Va := Va, self_alpha := alpha, self_beta := Some beta,
              self_state := (self_state st)\<lparr>s_u := Va * cos alpha * cos beta,
                                             s_v := Va * sin beta,
                                             s_w := Va * sin alpha * cos beta\<rparr>\<rparr>))))"
  by (simp add: initialize_velocity_def Let_def split: prod.splits)



section \<open>Divisions by the airspeed\<close>

lemma np_div_None_iff: "np_div a b = None \<longleftrightarrow> b = 0"
  by (simp add: np_div_def)

lemma bind_Some_None_iff: "(x \<bind> (\<lambda>y. Some (g y))) = None \<longleftrightarrow> x = None"
  by (cases x) simp_all

lemma bind_np_div_None_iff: "(np_div a b \<bind> f) = None \<longleftrightarrow> b = 0 \<or> f (a / b) = None"
  by (simp add: np_div_def)

lemma sideslip_None_iff:
  "do { x \<leftarrow> np_div b (norm3 (a, b, c)); np_arcsin x } = None \<longleftrightarrow> norm3 (a, b, c) = 0"
proof (cases "norm3 (a, b, c) = 0")
  case True
  then show ?thesis by (simp add: np_div_def)
next
  case False
  then show ?thesis using sideslip_defined [OF False] by simp
qed

lemma update_velocity_data_None_iff:
  "self_beta (update_velocity_data wind st) = None \<longleftrightarrow> self_Va (update_velocity_data wind st) = 0"
proof -
  obtain w0 w1 w2 g0 g1 g2 where w: "wind = (w0, w1, w2, g0, g1, g2)" by (cases wind) auto
  show ?thesis
    using sideslip_None_iff [of "s_v (self_state st) - w1" "s_u (self_state st) - w0" "s_w (self_state st) - w2"]
    unfolding w by (simp add: update_velocity_data_def state_3_6_def Let_def del: norm3.simps)
qed

lemma forces_moments_None_iff:
  "(case fst (forces_moments E delta st) of (fx, fy, fz, l, m, n) \<Rightarrow>
      (fx = None \<longleftrightarrow> self_Va st = 0 \<or> MAV_e (MAV E) = 0 \<or> MAV_AR (MAV E) = 0) \<and>
      (fy = None \<longleftrightarrow> self_Va st = 0 \<or> self_beta st = None) \<and>
      (fz = None \<longleftrightarrow> self_Va st = 0 \<or> MAV_e (MAV E) = 0 \<or> MAV_AR (MAV E) = 0) \<and>
      (l = None \<longleftrightarrow> self_Va st = 0 \<or> self_beta st = None) \<and>
      (m = None \<longleftrightarrow> self_Va st = 0) \<and>
      (n = None \<longleftrightarrow> self_Va st = 0 \<or> self_beta st = None))"
  by (cases "self_beta st")
     (auto simp add: forces_moments_def Let_def bind_np_div_None_iff bind_Some_None_iff np_div_None_iff
      split: prod.splits)

text \<open>C7: the velocity resolution divides by the airspeed once (the sideslip) and
  the force model divides by twice the airspeed in every component (the rate-damping
  terms). A nonzero airspeed, in particular a positive one, makes each of these
  divisions finite: the sideslip is non-finite exactly when the resolved airspeed is
  zero, and a force or moment component is non-finite exactly when the airspeed is
  zero or another input of that component already is (a non-finite sideslip, or a
  zero \<open>pi * e * AR\<close> under the drag coefficient). Nothing clamps the airspeed: at
  airspeed zero the sideslip and all six components are non-finite.\<close>

theorem airspeed_divisions:
  "(self_beta (update_velocity_data wind st) = None
      \<longleftrightarrow> self_Va (update_velocity_data wind st) = 0) \<and>
   (case fst (forces_moments E delta st) of (fx, fy, fz, l, m, n) \<Rightarrow>
      (fx = None \<longleftrightarrow> self_Va st = 0 \<or> MAV_e (MAV E) = 0 \<or> MAV_AR (MAV E) = 0) \<and>
      (fy = None \<longleftrightarrow> self_Va st = 0 \<or> self_beta st = None) \<and>
      (fz = None \<longleftrightarrow> self_Va st = 0 \<or> MAV_e (MAV E) = 0 \<or> MAV_AR (MAV E) = 0) \<and>
      (l = None \<longleftrightarrow> self_Va st = 0 \<or> self_beta st = None) \<and>
      (m = None \<longleftrightarrow> self_Va st = 0) \<and>
      (n = None \<longleftrightarrow> self_Va st = 0 \<or> self_beta st = None))"
  by (rule conjI [OF update_velocity_data_None_iff forces_moments_None_iff])

section \<open>Sensor synthesis: what a call changes\<close>

lemma sensor_frame_iff:
  "sensor_frame st st' \<longleftrightarrow>
     self_state st' = self_state st \<and> self_ts_simulation st' = self_ts_simulation st \<and>
     true_state st' = true_state st \<and> self_wind st' = self_wind st \<and>
     self_forces st' = self_forces st \<and> self_Va st' = self_Va st \<and>
     self_alpha st' = self_alpha st \<and> self_beta st' = self_beta st \<and>
     current_forces_moments st' = current_forces_moments st"
  by (cases st, cases st') (auto simp add: sensor_frame_def)

lemma sensor_frame_trans: "sensor_frame a b \<Longrightarrow> sensor_frame b c \<Longrightarrow> sensor_frame a c"
  by (simp add: sensor_frame_iff)

lemma sensors_gyros_frame: "sensor_frame st (sensors_gyros d st)"
  by (simp add: sensor_frame_iff sensors_gyros_def Let_def)

lemma sensors_accels_frame: "sensors_accels E d st = Inr st' \<Longrightarrow> sensor_frame st st'"
  by (auto simp add: sensor_frame_iff sensors_accels_def split: cached_forces.splits if_splits)

lemma sensors_mag_frame: "sensor_frame st (sensors_mag E d st)"
  by (simp add: sensor_frame_iff sensors_mag_def Let_def split: prod.splits)

lemma sensors_pressure_frame: "sensors_pressure E d st = Inr st' \<Longrightarrow> sensor_frame st st'"
  by (auto simp add: sensor_frame_iff sensors_pressure_def split: sum.splits)

lemma sensors_gps_frame: "sensor_frame st (sensors_gps E d st)"
  by (simp add: sensor_frame_iff sensors_gps_def Let_def)

lemma sensors_frame: "sensor_frame st (snd (sensors E d st))"
proof -
  let ?st1 = "sensors_gyros d st"
  have f1: "sensor_frame st ?st1" by (rule sensors_gyros_frame)
  show ?thesis
  proof (cases "sensors_accels E d ?st1")
    case (Inl err)
    then show ?thesis using f1 by (simp add: sensors_def Let_def)
  next
    case (Inr st2)
    let ?st3 = "sensors_mag E d st2"
    have f3: "sensor_frame st ?st3"
      using f1 sensors_accels_frame [OF Inr] sensors_mag_frame sensor_frame_trans by blast
    show ?thesis
    proof (cases "sensors_pressure E d ?st3")
      case (Inl err)
      then show ?thesis using f3 Inr by (simp add: sensors_def Let_def)
    next
      case st4: (Inr st4)
      have "sensor_frame st (sensors_gps E d st4)"
        using f3 sensors_pressure_frame [OF st4] sensors_gps_frame sensor_frame_trans by blast
      then show ?thesis using Inr st4 by (simp add: sensors_def Let_def)
    qed
  qed
qed

lemma sensors_returns:
  assumes "current_forces_moments st = ColumnArray f"
    and "py_pow (1 - ((- 0.0065 * st_altitude (true_state st)) / 288.15))
                ((MAV_gravity (MAV E) * 0.0289644) / (8.31432 * - 0.0065)) = Inr v"
  shows "sensors E d st = (Inr (self_sensors (sensors_gps E d (pre_gps E d st))),
                           sensors_gps E d (pre_gps E d st))"
  using assms
  by (cases f) (simp add: pre_gps_def sensors_def sensors_gyros_def sensors_accels_def sensors_mag_def
      sensors_pressure_def Let_def split: prod.splits)

lemma pre_gps_fields:
  assumes "current_forces_moments st = ColumnArray f"
    and "py_pow (1 - ((- 0.0065 * st_altitude (true_state st)) / 288.15))
                ((MAV_gravity (MAV E) * 0.0289644) / (8.31432 * - 0.0065)) = Inr v"
  shows "true_state (pre_gps E d st) = true_state st"
    and "self_t_gps (pre_gps E d st) = self_t_gps st"
    and "self_ts_simulation (pre_gps E d st) = self_ts_simulation st"
    and "self_gps_eta_n (pre_gps E d st) = self_gps_eta_n st"
    and "self_gps_eta_e (pre_gps E d st) = self_gps_eta_e st"
    and "self_gps_eta_h (pre_gps E d st) = self_gps_eta_h st"
    and "self_gps_eta_Vg (pre_gps E d st) = self_gps_eta_Vg st"
    and "self_gps_eta_course (pre_gps E d st) = self_gps_eta_course st"
    and "gps_n (self_sensors (pre_gps E d st)) = gps_n (self_sensors st)"
    and "gps_e (self_sensors (pre_gps E d st)) = gps_e (self_sensors st)"
    and "gps_h (self_sensors (pre_gps E d st)) = gps_h (self_sensors st)"
    and "gps_Vg (self_sensors (pre_gps E d st)) = gps_Vg (self_sensors st)"
    and "gps_course (self_sensors (pre_gps E d st)) = gps_course (self_sensors st)"
  using assms
  by (cases f; simp add: pre_gps_def sensors_gyros_def sensors_accels_def sensors_mag_def
      sensors_pressure_def Let_def split: prod.splits)+

lemma sensors_gps_timer:
  "self_t_gps (sensors_gps E d st) = self_t_gps st + self_ts_simulation st"
  by (simp add: sensors_gps_def Let_def)

lemma sensors_gps_due:
  assumes "SENSOR_ts_gps (SENSOR E) \<le> self_t_gps st"
  shows "self_gps_eta_n (sensors_gps E d st) =
           exp (- SENSOR_gps_k (SENSOR E) * SENSOR_ts_gps (SENSOR E)) * self_gps_eta_n st
           + random_normal 0 (SENSOR_gps_n_sigma (SENSOR E)) (z_gps_n d) * SENSOR_ts_gps (SENSOR E)"
    and "gps_n (self_sensors (sensors_gps E d st)) =
           st_north (true_state st) + self_gps_eta_n (sensors_gps E d st)"
    and "self_gps_eta_Vg (sensors_gps E d st) =
           Some (random_normal 0 (SENSOR_gps_Vg_sigma (SENSOR E)) (z_gps_Vg d))"
    and "self_gps_eta_course (sensors_gps E d st) =
           Some (random_normal 0 (SENSOR_gps_course_sigma (SENSOR E)) (z_gps_course d))"
  using assms by (simp_all add: sensors_gps_def Let_def)

lemma sensors_gps_waiting:
  assumes "self_t_gps st < SENSOR_ts_gps (SENSOR E)"
  shows "sensors_gps E d st = st\<lparr>self_t_gps := self_t_gps st + self_ts_simulation st\<rparr>"
  using assms by (simp add: sensors_gps_def Let_def)

subsection \<open>Calls on the object in level flight\<close>

lemma demo_pressure:
  "py_pow (1 - ((- 0.0065 * st_altitude demo_true_state) / 288.15))
          ((MAV_gravity (MAV demo_env) * 0.0289644) / (8.31432 * - 0.0065))
   = Inr (PyFloat ((1 - ((- 0.0065 * 100) / 288.15)) powr ((9.81 * 0.0289644) / (8.31432 * - 0.0065))))"
  by (simp add: py_pow_def demo_true_state_def demo_env_def demo_MAV_def)

lemma demo_call:
  fixes d st
  defines "st1 \<equiv> snd (sensors demo_env d st)"
  assumes c: "current_forces_moments st = ColumnArray f"
    and t: "true_state st = demo_true_state"
    and due: "1 \<le> self_t_gps st"
  shows "fst (sensors demo_env d st) = Inr (self_sensors st1)"
    and "self_t_gps st1 = self_t_gps st + self_ts_simulation st"
    and "self_gps_eta_n st1 = exp (- (1 / 1100)) * self_gps_eta_n st + 0.21 * z_gps_n d"
    and "gps_n (self_sensors st1) = self_gps_eta_n st1"
    and "self_gps_eta_Vg st1 = Some (0.05 * z_gps_Vg d)"
    and "self_gps_eta_course st1 = Some (0.002 * z_gps_course d)"
    and "true_state st1 = demo_true_state"
    and "current_forces_moments st1 = ColumnArray f"
    and "self_ts_simulation st1 = self_ts_simulation st"
proof -
  note p = demo_pressure [folded t]
  note r = sensors_returns [OF c p, of d]
  note f = pre_gps_fields [OF c p, of d]
  have due': "SENSOR_ts_gps (SENSOR demo_env) \<le> self_t_gps (pre_gps demo_env d st)"
    unfolding f using due by (simp add: demo_env_def demo_SENSOR_def)
  note g = sensors_gps_due [OF due', of d]
  show "fst (sensors demo_env d st) = Inr (self_sensors st1)"
    unfolding st1_def r by simp
  show "self_t_gps st1 = self_t_gps st + self_ts_simulation st"
    unfolding st1_def r snd_conv sensors_gps_timer f by simp
  show "self_gps_eta_n st1 = exp (- (1 / 1100)) * self_gps_eta_n st + 0.21 * z_gps_n d"
    unfolding st1_def r snd_conv g(1) f
    by (simp add: demo_env_def demo_SENSOR_def random_normal_def)
  show "gps_n (self_sensors st1) = self_gps_eta_n st1"
    unfolding st1_def r snd_conv g(2) f t by (simp add: demo_true_state_def)
  show "self_gps_eta_Vg st1 = Some (0.05 * z_gps_Vg d)"
    unfolding st1_def r snd_conv g(3)
    by (simp add: demo_env_def demo_SENSOR_def random_normal_def)
  show "self_gps_eta_course st1 = Some (0.002 * z_gps_course d)"
    unfolding st1_def r snd_conv g(4)
    by (simp add: demo_env_def demo_SENSOR_def random_normal_def)
  have fr: "sensor_frame st st1" unfolding st1_def by (rule sensors_frame)
  show "true_state st1 = demo_true_state" using fr t by (simp add: sensor_frame_iff)
  show "current_forces_moments st1 = ColumnArray f"
    using fr c by (simp add: sensor_frame_iff)
  show "self_ts_simulation st1 = self_ts_simulation st" using fr by (simp add: sensor_frame_iff)
qed

lemma demo_mav_fields:
  "current_forces_moments demo_mav = ColumnArray (Some 0, Some 0, Some 0, Some 0, Some 0, Some 0)"
  "true_state demo_mav = demo_true_state"
  "self_t_gps demo_mav = 999"
  "self_ts_simulation demo_mav = 0.01"
  "self_gps_eta_n demo_mav = 0"
  "self_gps_eta_Vg demo_mav = None"
  "self_gps_eta_course demo_mav = None"
  by (simp_all add: demo_mav_def)

text \<open>C10, as stated, fails: a call that takes the GPS branch also stores the
  ground-speed and course noise in the attributes \<^verbatim>\<open>_gps_eta_Vg\<close> and
  \<^verbatim>\<open>_gps_eta_course\<close>, so the object differs from the old one outside the message,
  the three position biases and the timer. On the object in level flight the two
  attributes go from absent to 0.05 and 0.002.\<close>

theorem sensors_writes_gps_speed_course_noise:
  "self_gps_eta_Vg demo_mav = None \<and>
   self_gps_eta_Vg (snd (sensors demo_env (all_draws 1) demo_mav)) = Some 0.05 \<and>
   self_gps_eta_course demo_mav = None \<and>
   self_gps_eta_course (snd (sensors demo_env (all_draws 1) demo_mav)) = Some 0.002 \<and>
   snd (sensors demo_env (all_draws 1) demo_mav) \<noteq>
     demo_mav\<lparr>self_sensors := self_sensors (snd (sensors demo_env (all_draws 1) demo_mav)),
              self_gps_eta_n := self_gps_eta_n (snd (sensors demo_env (all_draws 1) demo_mav)),
              self_gps_eta_e := self_gps_eta_e (snd (sensors demo_env (all_draws 1) demo_mav)),
              self_gps_eta_h := self_gps_eta_h (snd (sensors demo_env (all_draws 1) demo_mav)),
              self_t_gps := self_t_gps (snd (sensors demo_env (all_draws 1) demo_mav))\<rparr>"
proof -
  let ?st' = "snd (sensors demo_env (all_draws 1) demo_mav)"
  let ?claimed = "demo_mav\<lparr>self_sensors := self_sensors ?st',
                          self_gps_eta_n := self_gps_eta_n ?st',
                          self_gps_eta_e := self_gps_eta_e ?st',
                          self_gps_eta_h := self_gps_eta_h ?st',
                          self_t_gps := self_t_gps ?st'\<rparr>"
  have due: "1 \<le> self_t_gps demo_mav" by (simp add: demo_mav_fields)
  note call = demo_call [OF demo_mav_fields(1,2) due, of "all_draws 1"]
  have vg: "self_gps_eta_Vg ?st' = Some 0.05"
    using call(5) by (simp add: all_draws_def)
  have co: "self_gps_eta_course ?st' = Some 0.002"
    using call(6) by (simp add: all_draws_def)
  have cl: "self_gps_eta_Vg ?claimed = None" by (simp add: demo_mav_fields)
  have ne: "?st' \<noteq> ?claimed"
  proof
    assume "?st' = ?claimed"
    then have "self_gps_eta_Vg ?st' = self_gps_eta_Vg ?claimed" by (rule arg_cong)
    then show False unfolding vg cl by simp
  qed
  show ?thesis using vg co ne by (simp add: demo_mav_fields)
qed

text \<open>C10 (amended): for every object, \<open>sensors\<close> leaves the state vector, the cached
  airspeed, angle of attack and sideslip, the cached wind, the cached forces and
  moments and the true-state projection unchanged (and the simulation step); it
  changes at most the sensor message, the five GPS noise attributes (the three
  position biases and the ground-speed and course noise) and the GPS timer. This
  holds also when the call raises.\<close>

theorem sensors_frame_effect:
  "snd (sensors E d st) =
     st\<lparr>self_sensors := self_sensors (snd (sensors E d st)),
        self_gps_eta_n := self_gps_eta_n (snd (sensors E d st)),
        self_gps_eta_e := self_gps_eta_e (snd (sensors E d st)),
        self_gps_eta_h := self_gps_eta_h (snd (sensors E d st)),
        self_gps_eta_Vg := self_gps_eta_Vg (snd (sensors E d st)),
        self_gps_eta_course := self_gps_eta_course (snd (sensors E d st)),
        self_t_gps := self_t_gps (snd (sensors E d st))\<rparr> \<and>
   self_state (snd (sensors E d st)) = self_state st \<and>
   self_Va (snd (sensors E d st)) = self_Va st \<and>
   self_alpha (snd (sensors E d st)) = self_alpha st \<and>
   self_beta (snd (sensors E d st)) = self_beta st \<and>
   self_wind (snd (sensors E d st)) = self_wind st \<and>
   self_forces (snd (sensors E d st)) = self_forces st \<and>
   current_forces_moments (snd (sensors E d st)) = current_forces_moments st \<and>
   true_state (snd (sensors E d st)) = true_state st \<and>
   self_ts_simulation (snd (sensors E d st)) = self_ts_simulation st"
proof -
  have f: "sensor_frame st (snd (sensors E d st))" by (rule sensors_frame)
  from f have "snd (sensors E d st) =
     st\<lparr>self_sensors := self_sensors (snd (sensors E d st)),
        self_gps_eta_n := self_gps_eta_n (snd (sensors E d st)),
        self_gps_eta_e := self_gps_eta_e (snd (sensors E d st)),
        self_gps_eta_h := self_gps_eta_h (snd (sensors E d st)),
        self_gps_eta_Vg := self_gps_eta_Vg (snd (sensors E d st)),
        self_gps_eta_course := self_gps_eta_course (snd (sensors E d st)),
        self_t_gps := self_t_gps (snd (sensors E d st))\<rparr>"
    unfolding sensor_frame_def .
  moreover from f have "self_state (snd (sensors E d st)) = self_state st \<and>
   self_Va (snd (sensors E d st)) = self_Va st \<and>
   self_alpha (snd (sensors E d st)) = self_alpha st \<and>
   self_beta (snd (sensors E d st)) = self_beta st \<and>
   self_wind (snd (sensors E d st)) = self_wind st \<and>
   self_forces (snd (sensors E d st)) = self_forces st \<and>
   current_forces_moments (snd (sensors E d st)) = current_forces_moments st \<and>
   true_state (snd (sensors E d st)) = true_state st \<and>
   self_ts_simulation (snd (sensors E d st)) = self_ts_simulation st"
    by (simp add: sensor_frame_iff)
  ultimately show ?thesis by (rule conjI)
qed

section \<open>The magnetometer\<close>

lemma sensors_mag_fields:
  assumes "current_forces_moments st = ColumnArray f"
  shows "mag_x (self_sensors (snd (sensors E d st)))
           = fst (mag_body E (true_state st))
             * random_normal 0 (SENSOR_mag_sigma (SENSOR E)) (z_mag_x d)"
    and "mag_y (self_sensors (snd (sensors E d st)))
           = fst (snd (mag_body E (true_state st)))
             * random_normal 0 (SENSOR_mag_sigma (SENSOR E)) (z_mag_y d)"
    and "mag_z (self_sensors (snd (sensors E d st)))
           = snd (snd (mag_body E (true_state st)))
             * random_normal 0 (SENSOR_mag_sigma (SENSOR E)) (z_mag_z d)"
  using assms
  by (cases f; simp add: sensors_def sensors_gyros_def sensors_accels_def sensors_mag_def
      sensors_pressure_def sensors_gps_def Let_def split: prod.splits sum.splits)+

lemma demo_rotation_isometry:
  "norm3 (mat_vec (transpose3 (demo_euler_to_rotation phi theta psi)) v) = norm3 v"
proof -
  obtain x y z where v: "v = (x, y, z)" by (cases v) auto
  have e: "(sin phi)\<^sup>2 + (cos phi)\<^sup>2 = 1" "(sin theta)\<^sup>2 + (cos theta)\<^sup>2 = 1"
    "(sin psi)\<^sup>2 + (cos psi)\<^sup>2 = 1" by simp_all
  define sp cp st ct ss cs where "sp = sin phi" and "cp = cos phi" and "st = sin theta"
    and "ct = cos theta" and "ss = sin psi" and "cs = cos psi"
  have e': "sp\<^sup>2 + cp\<^sup>2 = 1" "st\<^sup>2 + ct\<^sup>2 = 1" "ss\<^sup>2 + cs\<^sup>2 = 1"
    using e by (simp_all add: sp_def cp_def st_def ct_def ss_def cs_def)
  have "(ct * cs * x + ct * ss * y + - st * z)\<^sup>2
        + ((sp * st * cs - cp * ss) * x + (sp * st * ss + cp * cs) * y + sp * ct * z)\<^sup>2
        + ((cp * st * cs + sp * ss) * x + (cp * st * ss - sp * cs) * y + cp * ct * z)\<^sup>2
        = x\<^sup>2 + y\<^sup>2 + z\<^sup>2"
    using e' by algebra
  then show ?thesis
    unfolding v by (simp add: demo_euler_to_rotation_def sp_def cp_def st_def ct_def ss_def cs_def)
qed

text \<open>C8: when the cached forces are a column array (so that the call reaches the
  magnetometer block), each magnetometer axis is the corresponding component of
  \<open>mb\<close> times that axis's own draw of \<^verbatim>\<open>np.random.normal(0, mag_sigma)\<close>, where \<open>mb\<close>
  is the fixed inertial vector \<open>mi\<close> (the first basis vector under the transposed
  rotation for inclination 66 and declination 2.13 degrees) under the transposed
  rotation of the current attitude: the noise multiplies the field. \<open>mi\<close> has unit
  length whenever that transposed rotation preserves lengths.\<close>

theorem magnetometer_multiplicative_noise:
  assumes "current_forces_moments st = ColumnArray f"
  shows "(let inc = deg2rad 66;
              dec = deg2rad 2.13;
              R0 = euler_to_rotation E 0 (- inc) dec;
              mi = mat_vec (transpose3 R0) (1, 0, 0);
              ts = true_state st;
              (mb0, mb1, mb2) =
                 mat_vec (transpose3 (euler_to_rotation E (st_phi ts) (st_theta ts) (st_psi ts))) mi;
              m = self_sensors (snd (sensors E d st))
          in mag_x m = mb0 * (0 + SENSOR_mag_sigma (SENSOR E) * z_mag_x d) \<and>
             mag_y m = mb1 * (0 + SENSOR_mag_sigma (SENSOR E) * z_mag_y d) \<and>
             mag_z m = mb2 * (0 + SENSOR_mag_sigma (SENSOR E) * z_mag_z d) \<and>
             ((\<forall>v. norm3 (mat_vec (transpose3 R0) v) = norm3 v) \<longrightarrow> norm3 mi = 1))"
proof -
  have "(\<forall>v. norm3 (mat_vec (transpose3 (euler_to_rotation E 0 (- deg2rad 66) (deg2rad 2.13))) v) = norm3 v)
        \<longrightarrow> norm3 (mat_vec (transpose3 (euler_to_rotation E 0 (- deg2rad 66) (deg2rad 2.13))) (1, 0, 0)) = 1"
  proof
    assume "\<forall>v. norm3 (mat_vec (transpose3 (euler_to_rotation E 0 (- deg2rad 66) (deg2rad 2.13))) v) = norm3 v"
    then have "norm3 (mat_vec (transpose3 (euler_to_rotation E 0 (- deg2rad 66) (deg2rad 2.13))) (1, 0, 0))
               = norm3 (1, 0, 0)" by blast
    then show "norm3 (mat_vec (transpose3 (euler_to_rotation E 0 (- deg2rad 66) (deg2rad 2.13))) (1, 0, 0)) = 1"
      by simp
  qed
  then show ?thesis
    using sensors_mag_fields [OF assms, of E d]
    by (simp add: Let_def mag_body_def mag_inertial_def random_normal_def split: prod.splits)
qed

theorem magnetometer_multiplicative_noise_witness:
  "current_forces_moments demo_mav = ColumnArray (Some 0, Some 0, Some 0, Some 0, Some 0, Some 0) \<and>
   (\<forall>v. norm3 (mat_vec (transpose3 (euler_to_rotation demo_env 0 (- deg2rad 66) (deg2rad 2.13))) v)
        = norm3 v) \<and>
   norm3 (mat_vec (transpose3 (euler_to_rotation demo_env 0 (- deg2rad 66) (deg2rad 2.13))) (1, 0, 0)) = 1 \<and>
   mag_x (self_sensors (snd (sensors demo_env (all_draws 1) demo_mav)))
     = cos (deg2rad 66) * cos (deg2rad 2.13) * 0.01 \<and>
   mag_y (self_sensors (snd (sensors demo_env (all_draws 1) demo_mav)))
     = - sin (deg2rad 2.13) * 0.01 \<and>
   mag_z (self_sensors (snd (sensors demo_env (all_draws 1) demo_mav)))
     = - (sin (deg2rad 66) * cos (deg2rad 2.13)) * 0.01"
proof -
  have c: "current_forces_moments demo_mav = ColumnArray (Some 0, Some 0, Some 0, Some 0, Some 0, Some 0)"
    by (simp add: demo_mav_def)
  have e: "euler_to_rotation demo_env = demo_euler_to_rotation" by (simp add: demo_env_def)
  have iso: "\<forall>v. norm3 (mat_vec (transpose3 (euler_to_rotation demo_env 0 (- deg2rad 66) (deg2rad 2.13))) v)
        = norm3 v"
    unfolding e using demo_rotation_isometry by blast
  have mi: "mat_vec (transpose3 (demo_euler_to_rotation 0 (- deg2rad 66) (deg2rad 2.13))) (1, 0, 0)
            = (cos (deg2rad 66) * cos (deg2rad 2.13), - sin (deg2rad 2.13),
               - (sin (deg2rad 66) * cos (deg2rad 2.13)))"
    by (simp add: demo_euler_to_rotation_def)
  have att: "st_phi (true_state demo_mav) = 0" "st_theta (true_state demo_mav) = 0"
    "st_psi (true_state demo_mav) = 0"
    by (simp_all add: demo_mav_def demo_true_state_def)
  have id: "mat_vec (transpose3 (demo_euler_to_rotation 0 0 0)) v = v" for v
    by (cases v) (simp add: demo_euler_to_rotation_def)
  have par: "SENSOR_mag_sigma (SENSOR demo_env) = 0.01" "z_mag_x (all_draws 1) = 1"
    "z_mag_y (all_draws 1) = 1" "z_mag_z (all_draws 1) = 1"
    by (simp_all add: demo_env_def demo_SENSOR_def all_draws_def)
  show ?thesis
    using magnetometer_multiplicative_noise [OF c, of demo_env "all_draws 1"] iso c
    unfolding Let_def e mi att id par
    by simp
qed

section \<open>Sensors before the first update\<close>

lemma forces_moments_cached:
  "current_forces_moments (snd (forces_moments E delta st)) = ColumnArray (fst (forces_moments E delta st))"
  by (simp add: forces_moments_def Let_def split: prod.splits)

lemma update_velocity_data_cached:
  "current_forces_moments (update_velocity_data wind st) = current_forces_moments st"
  by (simp add: update_velocity_data_def Let_def split: prod.splits)

lemma update_true_state_cached:
  "current_forces_moments (update_true_state E st) = current_forces_moments st"
  by (simp add: update_true_state_def Let_def split: prod.splits)

lemma initialize_velocity_cached:
  "\<exists>f. current_forces_moments (initialize_velocity E Va alpha beta st) = ColumnArray f"
  unfolding initialize_velocity_unfold update_true_state_cached forces_moments_cached
  by blast

lemma update_unfold:
  "update E delta wind st =
     update_true_state E (update_velocity_data wind
       ((snd (forces_moments E delta st))\<lparr>self_state :=
          rk4_step E (self_ts_simulation (snd (forces_moments E delta st)))
                     (self_state (snd (forces_moments E delta st)))
                     (fst (forces_moments E delta st))\<rparr>))"
  by (simp add: update_def Let_def split: prod.splits)

lemma update_cached:
  "current_forces_moments (update E delta wind st) = ColumnArray (fst (forces_moments E delta st))"
  unfolding update_unfold update_true_state_cached update_velocity_data_cached
  by (simp add: forces_moments_cached)

lemma sensors_flat:
  assumes "current_forces_moments st = FlatList (x # xs)"
  shows "sensors E d st = (Inl TypeError, sensors_gyros d st)"
  using assms by (simp add: sensors_def sensors_accels_def sensors_gyros_def Let_def)

lemma sensors_column:
  assumes "current_forces_moments st = ColumnArray f"
  shows "\<exists>st2. sensors_accels E d (sensors_gyros d st) = Inr st2"
    and "fst (sensors E d st) \<noteq> Inl TypeError"
    and "fst (sensors E d st) \<noteq> Inl IndexError"
  using assms
  by (cases f; simp add: sensors_def sensors_accels_def sensors_gyros_def sensors_pressure_def
      py_pow_def Let_def split: sum.splits)+

lemma update_timer: "self_t_gps (update E delta wind st) = self_t_gps st"
  unfolding update_unfold
  by (subst update_true_state_frame)
     (simp add: update_velocity_data_def Let_def forces_moments_frame split: prod.splits)

lemma constructed_timer: "self_t_gps (MavDynamics_init E Ts) = 999"
  unfolding MavDynamics_init_def Let_def initialize_velocity_unfold
  by (subst update_true_state_frame)
     (simp add: update_velocity_data_def Let_def forces_moments_frame split: prod.splits)

text \<open>C9: \<open>initialize_velocity\<close> caches a column array, the constructor then
  overwrites it with the flat list \<open>[0, 0, 0, 0, 0, 0]\<close>, and a call of \<open>sensors\<close> on
  the freshly constructed object raises \<^verbatim>\<open>TypeError\<close> in the accelerometer block,
  after the gyro assignments. After an \<open>update\<close> the cache is the column array of
  the force model again and the accelerometer block goes through.\<close>

theorem sensors_before_update_raises:
  "(\<exists>f. current_forces_moments (initialize_velocity E (MAV_u0 (MAV E)) 0 0 st) = ColumnArray f) \<and>
   current_forces_moments (MavDynamics_init E Ts) = FlatList [0, 0, 0, 0, 0, 0] \<and>
   sensors E d (MavDynamics_init E Ts)
     = (Inl TypeError, sensors_gyros d (MavDynamics_init E Ts)) \<and>
   current_forces_moments (update E delta wind st)
     = ColumnArray (fst (forces_moments E delta st)) \<and>
   (\<exists>st2. sensors_accels E d (sensors_gyros d (update E delta wind st)) = Inr st2) \<and>
   fst (sensors E d (update E delta wind st)) \<noteq> Inl TypeError"
proof (intro conjI)
  show "\<exists>f. current_forces_moments (initialize_velocity E (MAV_u0 (MAV E)) 0 0 st) = ColumnArray f"
    by (rule initialize_velocity_cached)
  show flat: "current_forces_moments (MavDynamics_init E Ts) = FlatList [0, 0, 0, 0, 0, 0]"
    by (simp add: MavDynamics_init_def Let_def)
  show "sensors E d (MavDynamics_init E Ts)
          = (Inl TypeError, sensors_gyros d (MavDynamics_init E Ts))"
    by (rule sensors_flat [OF flat])
  show "current_forces_moments (update E delta wind st)
          = ColumnArray (fst (forces_moments E delta st))"
    by (rule update_cached)
  show "\<exists>st2. sensors_accels E d (sensors_gyros d (update E delta wind st)) = Inr st2"
    by (rule sensors_column(1) [OF update_cached])
  show "fst (sensors E d (update E delta wind st)) \<noteq> Inl TypeError"
    by (rule sensors_column(2) [OF update_cached])
qed

section \<open>The GPS timer\<close>

text \<open>The constructor sets the timer to 999 and \<open>update\<close> leaves it alone
  (\<open>constructed_timer\<close>, \<open>update_timer\<close>); the GPS block adds the simulation step to it
  in both branches (\<open>sensors_gps_timer\<close>) and never resets it.\<close>

text \<open>C1 fails on the program. With a GPS sample interval of 1 s and a simulation
  step of 0.01 s, two consecutive calls of \<open>sensors\<close> on the object in level flight
  (timer at the constructor's 999) both return normally and both take the GPS
  branch: the timer goes 999, 999.01, 999.02 and the north reading changes from 0
  to 0.21 between the two calls, 0.01 s apart.\<close>

theorem gps_resampled_on_consecutive_calls:
  "(let (r1, st1) = sensors demo_env (all_draws 0) demo_mav;
        (r2, st2) = sensors demo_env (all_draws 1) st1
    in SENSOR_ts_gps (SENSOR demo_env) = 1 \<and>
       self_ts_simulation demo_mav = 0.01 \<and>
       r1 = Inr (self_sensors st1) \<and> r2 = Inr (self_sensors st2) \<and>
       self_t_gps demo_mav = 999 \<and> self_t_gps st1 = 999.01 \<and> self_t_gps st2 = 999.02 \<and>
       gps_n (self_sensors st1) = 0 \<and> gps_n (self_sensors st2) = 0.21)"
proof -
  define st1 where "st1 = snd (sensors demo_env (all_draws 0) demo_mav)"
  define st2 where "st2 = snd (sensors demo_env (all_draws 1) st1)"
  have due: "1 \<le> self_t_gps demo_mav" by (simp add: demo_mav_fields)
  note c1 = demo_call [OF demo_mav_fields(1,2) due, of "all_draws 0", folded st1_def]
  have t1: "self_t_gps st1 = 999.01" using c1(2) by (simp add: demo_mav_fields)
  have e1: "self_gps_eta_n st1 = 0" using c1(3) by (simp add: demo_mav_fields all_draws_def)
  have due1: "1 \<le> self_t_gps st1" using t1 by simp
  note c2 = demo_call [OF c1(8) c1(7) due1, of "all_draws 1", folded st2_def]
  have t2: "self_t_gps st2 = 999.02" using c2(2) t1 c1(9) by (simp add: demo_mav_fields)
  have e2: "self_gps_eta_n st2 = 0.21" using c2(3) e1 by (simp add: all_draws_def)
  have s: "SENSOR_ts_gps (SENSOR demo_env) = 1" by (simp add: demo_env_def demo_SENSOR_def)
  have "sensors demo_env (all_draws 0) demo_mav = (Inr (self_sensors st1), st1)"
    using c1(1) by (simp add: st1_def prod_eq_iff)
  moreover have "sensors demo_env (all_draws 1) st1 = (Inr (self_sensors st2), st2)"
    using c2(1) by (simp add: st2_def prod_eq_iff)
  ultimately show ?thesis
    using s t1 t2 e1 e2 c1(4) c2(4) by (simp add: demo_mav_fields)
qed

text \<open>C2 fails on the program. A call in the due state (timer 999, sample interval
  1) emits a new sample (the north reading goes from 0 to 0.21), and the timer after
  it is 999.01: not reset, and not below the sample interval.\<close>

theorem gps_timer_not_reset:
  "SENSOR_ts_gps (SENSOR demo_env) = 1 \<and>
   SENSOR_ts_gps (SENSOR demo_env) \<le> self_t_gps demo_mav \<and>
   fst (sensors demo_env (all_draws 1) demo_mav)
     = Inr (self_sensors (snd (sensors demo_env (all_draws 1) demo_mav))) \<and>
   gps_n (self_sensors demo_mav) = 0 \<and>
   gps_n (self_sensors (snd (sensors demo_env (all_draws 1) demo_mav))) = 0.21 \<and>
   self_t_gps (snd (sensors demo_env (all_draws 1) demo_mav)) = 999.01 \<and>
   SENSOR_ts_gps (SENSOR demo_env) \<le> self_t_gps (snd (sensors demo_env (all_draws 1) demo_mav))"
proof -
  have due: "1 \<le> self_t_gps demo_mav" by (simp add: demo_mav_fields)
  note c1 = demo_call [OF demo_mav_fields(1,2) due, of "all_draws 1"]
  have s: "SENSOR_ts_gps (SENSOR demo_env) = 1" by (simp add: demo_env_def demo_SENSOR_def)
  have t1: "self_t_gps (snd (sensors demo_env (all_draws 1) demo_mav)) = 999.01"
    using c1(2) by (simp add: demo_mav_fields)
  have e1: "self_gps_eta_n (snd (sensors demo_env (all_draws 1) demo_mav)) = 0.21"
    using c1(3) by (simp add: demo_mav_fields all_draws_def)
  have g0: "gps_n (self_sensors demo_mav) = 0" by (simp add: demo_mav_def demo_sensors_def)
  show ?thesis using s c1(1) c1(4) t1 e1 g0 by (simp add: demo_mav_fields)
qed

end
